theory Spec2Isabelle
  imports Main "HOL-Library.Word"
begin

unbundle bit_operations_syntax

section \<open>Data model\<close>

text \<open>
  A \<open>std::string\<close> is a sequence of \<open>char\<close>. The sketch is built for the ESP32, whose
  toolchain makes plain \<open>char\<close> an unsigned 8-bit type (the brace initialisers with
  \<open>0xF3\<close>, \<open>0xE6\<close> ... only fit an unsigned \<open>char\<close>), so a character is an \<open>8 word\<close>
  and its promotion to \<open>int\<close> is the zero extension. \<open>int\<close> and \<open>uint32_t\<close> are 32 bits
  wide; arithmetic in them is arithmetic on \<open>32 word\<close>, wrapping modulo \<open>2 ^ 32\<close>.
\<close>

type_synonym byte = "8 word"
type_synonym bytes = "byte list"

definition to_int :: "byte \<Rightarrow> 32 word" where
  "to_int c = ucast c"

text \<open>
  \<open>s[i]\<close> on a \<open>std::string\<close>: the character at \<open>i\<close>, and the terminating NUL at
  \<open>i = s.length()\<close>. Larger indices are undefined in C++; every index the functions below
  use is covered by a length check made before, apart from \<open>transmitterID[0]\<close>, which is at
  most the length.
\<close>

definition char_at :: "bytes \<Rightarrow> nat \<Rightarrow> byte" where
  "char_at s i = (if i < length s then s ! i else 0)"

text \<open>\<open>s.c_str()\<close>: the characters followed by NUL; \<open>strlen\<close> counts up to the first NUL.\<close>

definition c_str :: "bytes \<Rightarrow> bytes" where
  "c_str s = s @ [0]"

definition strlen :: "bytes \<Rightarrow> nat" where
  "strlen p = length (takeWhile (\<lambda>b. b \<noteq> 0) p)"

subsection \<open>Serial output\<close>

text \<open>
  Modelled from the spec: the output levels of \<open>Output.h\<close>, which is not among the
  sources; logging and formatting are external collaborators (section 1). The levels are
  the ones the calls in this file name.
\<close>

datatype level = ERROR | DEBUG | DATA | GLUCOSE

text \<open>
  An argument of a \<open>SerialPrintf\<close> call, with the type the caller gives it, and the events
  of a session: frames sent and received on the two channels, and lines printed.
\<close>

datatype arg = U8 byte | U16 "16 word" | U32 "32 word" | IntArg "32 word" | StrArg string

datatype event =
    AuthSend bytes
  | AuthRecv bytes
  | ControlSend bytes
  | ControlRecv bytes
  | Println level string
  | Printf level string "arg list"

subsection \<open>Session state\<close>

text \<open>
  The globals the functions read and write (\<open>transmitterID\<close>, a \<open>std::string\<close>, and
  \<open>bonding\<close>, both declared in the main sketch), the values the notify callbacks of the
  two channels are going to deliver, in order, and the trace of everything sent, received
  and printed so far.
\<close>

record session =
  transmitterID :: bytes
  bonding :: bool
  authNotify :: "bytes list"
  controlNotify :: "bytes list"
  trace :: "event list"

text \<open>
  Ways in which a call does not return a value: the wait for a notification that never
  comes, a \<open>std::string\<close> constructed from a null pointer (libstdc++ raises
  \<open>std::logic_error\<close>, which aborts the sketch when exceptions are off), a read past
  the end of a buffer.
\<close>

datatype fault = WaitsForever | NullString | ReadPastEnd

type_synonym 'a outcome = "(fault \<times> session) + ('a \<times> session)"

definition emit :: "event \<Rightarrow> session \<Rightarrow> session" where
  "emit e s = s\<lparr>trace := trace s @ [e]\<rparr>"

text \<open>
  Modelled from the spec: \<open>SerialPrintln\<close> of \<open>Output.h\<close>, not among the sources. The
  call is recorded with its level and text.
\<close>

definition SerialPrintln :: "level \<Rightarrow> string \<Rightarrow> session \<Rightarrow> session" where
  "SerialPrintln l msg s = emit (Println l msg) s"

text \<open>
  Modelled from the spec: \<open>SerialPrintf\<close> of \<open>Output.h\<close>, not among the sources. The
  call is recorded with its level, its format string and the argument values as the caller
  passes them; formatting is left to the collaborator.
\<close>

definition SerialPrintf :: "level \<Rightarrow> string \<Rightarrow> arg list \<Rightarrow> session \<Rightarrow> session" where
  "SerialPrintf l fmt args s = emit (Printf l fmt args) s"

subsection \<open>Transport\<close>

text \<open>
  Modelled from the spec: \<open>AuthSendValue\<close>, defined in another file of the sketch.
  Sections 1 and 6: \<open>sendOnAuthChannel(bytes)\<close>, the send primitive of the
  authentication channel.
\<close>

definition AuthSendValue :: "bytes \<Rightarrow> session \<Rightarrow> session" where
  "AuthSendValue v s = emit (AuthSend v) s"

text \<open>
  Modelled from the spec: \<open>AuthWaitToReceiveValue\<close>, defined in another file of the
  sketch. Sections 1 and 6: \<open>awaitOnAuthChannel() -> bytes\<close>, blocking, delivered through
  an external notification. Waiting with nothing left to deliver never returns.
\<close>

definition AuthWaitToReceiveValue :: "session \<Rightarrow> bytes outcome" where
  "AuthWaitToReceiveValue s =
     (case authNotify s of
        [] \<Rightarrow> Inl (WaitsForever, s)
      | v # vs \<Rightarrow> Inr (v, emit (AuthRecv v) (s\<lparr>authNotify := vs\<rparr>)))"

text \<open>
  Modelled from the spec: \<open>ControlSendValue\<close>, defined in another file of the sketch.
  Sections 1 and 6: \<open>sendOnControlChannel(bytes)\<close>.
\<close>

definition ControlSendValue :: "bytes \<Rightarrow> session \<Rightarrow> session" where
  "ControlSendValue v s = emit (ControlSend v) s"

text \<open>
  Modelled from the spec: \<open>ControlWaitToReceiveValue\<close>, defined in another file of the
  sketch. Sections 1 and 6: \<open>awaitOnControlChannel() -> bytes\<close>, blocking as on the
  authentication channel.
\<close>

definition ControlWaitToReceiveValue :: "session \<Rightarrow> bytes outcome" where
  "ControlWaitToReceiveValue s =
     (case controlNotify s of
        [] \<Rightarrow> Inl (WaitsForever, s)
      | v # vs \<Rightarrow> Inr (v, emit (ControlRecv v) (s\<lparr>controlNotify := vs\<rparr>)))"

section \<open>The keyed hash\<close>

text \<open>
  The mbed TLS calls of \<open>encrypt\<close>. The library is not part of the repository. By its
  documentation \<open>mbedtls_aes_setkey_enc\<close> binds the first \<open>keybits / 8\<close> bytes of the key
  to the context when \<open>keybits\<close> is 128, 192 or 256, and otherwise fails leaving the
  context as it was (\<open>encrypt\<close> drops the return code). The block encryption itself,
  \<open>mbedtls_aes_crypt_ecb\<close> in encrypt mode, is a parameter of the model: a function from
  the context and the 16 input bytes to the 16 output bytes. On a bound context it is AES
  under the bound key; what it leaves in \<open>output\<close> on an unbound context is up to the
  platform.
\<close>

datatype aes_context = Unbound | Bound bytes

type_synonym crypt_ecb = "aes_context \<Rightarrow> bytes \<Rightarrow> bytes"

definition mbedtls_aes_init :: aes_context where
  "mbedtls_aes_init = Unbound"

definition mbedtls_aes_setkey_enc :: "aes_context \<Rightarrow> bytes \<Rightarrow> nat \<Rightarrow> aes_context" where
  "mbedtls_aes_setkey_enc ctx key keybits =
     (if keybits = 128 \<or> keybits = 192 \<or> keybits = 256
      then Bound (take (keybits div 8) key) else ctx)"

text \<open>
  \<open>encrypt\<close>: the key is \<open>"00" + id + "00" + id\<close>, its length in bits is taken with
  \<open>strlen\<close>, one block is read from \<open>buffer.c_str()\<close>, and the 16 output bytes are copied
  into the result. The source's parameter \<open>id\<close> is written \<open>ident\<close> here.
\<close>

definition key_string :: "bytes \<Rightarrow> bytes" where
  "key_string ident = [0x30, 0x30] @ ident @ [0x30, 0x30] @ ident"

definition encrypt :: "crypt_ecb \<Rightarrow> bytes \<Rightarrow> bytes \<Rightarrow> fault + bytes" where
  "encrypt ecb buffer ident =
     (let key = key_string ident;
          aes = mbedtls_aes_setkey_enc mbedtls_aes_init (c_str key) (strlen (c_str key) * 8)
      in if length (c_str buffer) < 16 then Inl ReadPastEnd
         else Inr (take 16 (ecb aes (take 16 (c_str buffer)))))"

text \<open>
  \<open>calculateHash\<close>: a challenge that is not 8 bytes long is logged and answered with
  \<open>return NULL\<close>, which has to build the \<open>std::string\<close> result from a null pointer.
\<close>

definition calculateHash :: "crypt_ecb \<Rightarrow> bytes \<Rightarrow> bytes \<Rightarrow> session \<Rightarrow> bytes outcome" where
  "calculateHash ecb data ident s =
     (if length data \<noteq> 8 then Inl (NullString, SerialPrintln ERROR ''cannot hash'' s)
      else case encrypt ecb (data @ data) ident of
             Inl f \<Rightarrow> Inl (f, s)
           | Inr hash \<Rightarrow> Inr (take 8 hash, s))"

section \<open>The authentication handshake\<close>

definition authRequestTxMessage :: bytes where
  "authRequestTxMessage = [0x01, 0x19, 0xF3, 0x89, 0xF8, 0xB7, 0x58, 0x41, 0x33, 0x02]"

text \<open>
  The loop over \<open>i = 1 ..< length\<close> that appends byte \<open>i\<close> to \<open>tokenHash\<close> while
  \<open>i < 9\<close> and to \<open>challenge\<close> afterwards; the accumulator is the pair
  \<open>(tokenHash, challenge)\<close>.
\<close>

definition split_step :: "bytes \<Rightarrow> bytes \<times> bytes \<Rightarrow> nat \<Rightarrow> bytes \<times> bytes" where
  "split_step msg acc i =
     (if i < 9 then (fst acc @ [char_at msg i], snd acc)
      else (fst acc, snd acc @ [char_at msg i]))"

definition split_challenge :: "bytes \<Rightarrow> bytes \<times> bytes" where
  "split_challenge msg = foldl (split_step msg) ([], []) [1..<length msg]"

definition authenticate :: "crypt_ecb \<Rightarrow> session \<Rightarrow> bool outcome" where
  "authenticate ecb s =
     (case AuthWaitToReceiveValue (AuthSendValue authRequestTxMessage s) of
        Inl f \<Rightarrow> Inl f
      | Inr (authChallengeRxMessage, s1) \<Rightarrow>
          if length authChallengeRxMessage \<noteq> 17 \<or> char_at authChallengeRxMessage 0 \<noteq> 0x03
          then Inr (False, SerialPrintln ERROR ''Error wrong length or opcode!'' s1)
          else
            let challenge = snd (split_challenge authChallengeRxMessage) in
            (case calculateHash ecb challenge (transmitterID s1) s1 of
               Inl f \<Rightarrow> Inl f
             | Inr (hash, s2) \<Rightarrow>
                 (case AuthWaitToReceiveValue (AuthSendValue (0x04 # hash) s2) of
                    Inl f \<Rightarrow> Inl f
                  | Inr (authStatusRXMessage, s3) \<Rightarrow>
                      if length authStatusRXMessage = 3 \<and> char_at authStatusRXMessage 1 = 1
                      then Inr (True, (SerialPrintln DEBUG ''Authenticated!'' s3)
                                        \<lparr>bonding := (char_at authStatusRXMessage 2 \<noteq> 0x01)\<rparr>)
                      else Inr (False, SerialPrintln ERROR ''Authenticated FAILED!'' s3))))"

section \<open>Telemetry queries\<close>

text \<open>
  Each query sends its fixed command on the control channel, waits for the answer, checks
  length and opcode, and prints the decoded fields. The locals keep the source's names and
  casts: a sum of promoted characters is \<open>int\<close> arithmetic, \<open>(uint16_t)\<close> truncates it.
\<close>

definition readTimeMessage :: "session \<Rightarrow> bool outcome" where
  "readTimeMessage s =
     (case ControlWaitToReceiveValue (ControlSendValue [0x24, 0xE6, 0x64] s) of
        Inl f \<Rightarrow> Inl f
      | Inr (rx, s1) \<Rightarrow>
          if length rx \<noteq> 16 \<or> char_at rx 0 \<noteq> 0x25 then Inr (False, s1)
          else
            let status = char_at rx 1;
                currentTime = to_int (char_at rx 2) + to_int (char_at rx 3) * 0x100
                            + to_int (char_at rx 4) * 0x10000 + to_int (char_at rx 5) * 0x1000000;
                sessionStartTime = to_int (char_at rx 6) + to_int (char_at rx 7) * 0x100
                            + to_int (char_at rx 8) * 0x10000 + to_int (char_at rx 9) * 0x1000000;
                s2 = SerialPrintf DATA ''Time - Status:              %d\<newline>'' [U8 status] s1;
                s3 = SerialPrintf DATA
                       ''Time - since activation:    %d (%d days, %d hours)\<newline>''
                       [U32 currentTime, U32 (currentTime div (60 * 60 * 24)),
                        U32 ((currentTime div (60 * 60)) mod 24)] s2;
                s4 = SerialPrintf DATA ''Time - since session start: %d\<newline>''
                       [U32 sessionStartTime] s3
            in Inr (True, s4))"

definition readBatteryStatus :: "session \<Rightarrow> bool outcome" where
  "readBatteryStatus s =
     (case ControlWaitToReceiveValue
             (ControlSendValue [0x22, 0x20, 0x04]
                (SerialPrintln DEBUG ''Reading Battery Status.'' s)) of
        Inl f \<Rightarrow> Inl f
      | Inr (rx, s1) \<Rightarrow>
          if \<not> (length rx = 10 \<or> length rx = 12) \<or> char_at rx 0 \<noteq> 0x23 then Inr (False, s1)
          else
            let s2 = SerialPrintf DATA ''Battery - Status:      %d\<newline>'' [U8 (char_at rx 1)] s1;
                s3 = SerialPrintf DATA ''Battery - Voltage A:   %d\<newline>''
                       [U16 (ucast (to_int (char_at rx 2) + to_int (char_at rx 3) * 0x100))] s2;
                s4 = SerialPrintf DATA ''Battery - Voltage B:   %d\<newline>''
                       [U16 (ucast (to_int (char_at rx 4) + to_int (char_at rx 5) * 0x100))] s3;
                s5 = (if length rx = 12 then
                        let t1 = SerialPrintf DATA ''Battery - Resistance:  %d\<newline>''
                                   [U16 (ucast (to_int (char_at rx 6) + to_int (char_at rx 7) * 0x100))] s4;
                            t2 = SerialPrintf DATA ''Battery - Runtime:     %d\<newline>''
                                   [U8 (char_at rx 8)] t1
                        in SerialPrintf DATA ''Battery - Temperature: %d\<newline>''
                             [U8 (char_at rx 9)] t2
                      else if length rx = 10 then
                        let t1 = SerialPrintf DATA ''Battery - Runtime:     %d\<newline>''
                                   [U8 (char_at rx 6)] s4
                        in SerialPrintf DATA ''Battery - Temperature: %d\<newline>''
                             [U8 (char_at rx 7)] t1
                      else s4)
            in Inr (True, s5))"

definition glucoseTxMessageG5 :: bytes where
  "glucoseTxMessageG5 = [0x30, 0x53, 0x36]"

definition glucoseTxMessageG6 :: bytes where
  "glucoseTxMessageG6 = [0x4e, 0x0a, 0xa9]"

definition readGlucose :: "session \<Rightarrow> bool outcome" where
  "readGlucose s =
     (case ControlWaitToReceiveValue
             (if char_at (transmitterID s) 0 \<noteq> 8
              then ControlSendValue glucoseTxMessageG5 s
              else ControlSendValue glucoseTxMessageG6 s) of
        Inl f \<Rightarrow> Inl f
      | Inr (rx, s1) \<Rightarrow>
          if length rx < 16
             \<or> char_at rx 0 \<noteq> (if char_at (transmitterID s1) 0 \<noteq> 8 then 0x31 else 0x4f)
          then Inr (False, s1)
          else
            let status = char_at rx 1;
                sequence = to_int (char_at rx 2) + to_int (char_at rx 3) * 0x100
                         + to_int (char_at rx 4) * 0x10000 + to_int (char_at rx 5) * 0x1000000;
                timestamp = to_int (char_at rx 6) + to_int (char_at rx 7) * 0x100
                          + to_int (char_at rx 8) * 0x10000 + to_int (char_at rx 9) * 0x1000000;
                glucoseBytes = (ucast (to_int (char_at rx 10) + to_int (char_at rx 11) * 0x100)
                                  :: 16 word);
                glucoseIsDisplayOnly = ((glucoseBytes AND 0xf000) > 0);
                glucose = glucoseBytes AND 0xfff;
                state = char_at rx 12;
                trend = to_int (char_at rx 13);
                s2 = SerialPrintf DATA ''Glucose - Status:      %d\<newline>'' [U8 status] s1;
                s3 = SerialPrintf DATA ''Glucose - Sequence:    %d\<newline>'' [U32 sequence] s2;
                s4 = SerialPrintf DATA ''Glucose - Timestamp:   %d\<newline>'' [U32 timestamp] s3;
                s5 = SerialPrintf DATA ''Glucose - DisplayOnly: %s\<newline>''
                       [StrArg (if glucoseIsDisplayOnly then ''true'' else ''false'')] s4;
                s6 = SerialPrintf GLUCOSE ''Glucose - Glucose:     %d\<newline>'' [U16 glucose] s5;
                s7 = SerialPrintf DATA ''Glucose - State:       %d\<newline>'' [U8 state] s6;
                s8 = SerialPrintf DATA ''Glucose - Trend:       %d\<newline>'' [IntArg trend] s7
            in Inr (True, s8))"

definition readSensor :: "session \<Rightarrow> bool outcome" where
  "readSensor s =
     (case ControlWaitToReceiveValue (ControlSendValue [0x2e, 0xac, 0xc5] s) of
        Inl f \<Rightarrow> Inl f
      | Inr (rx, s1) \<Rightarrow>
          if (length rx \<noteq> 16 \<and> length rx \<noteq> 8) \<or> char_at rx 0 \<noteq> 0x2f then Inr (False, s1)
          else
            let status = char_at rx 1;
                timestamp = to_int (char_at rx 2) + to_int (char_at rx 3) * 0x100
                          + to_int (char_at rx 4) * 0x10000 + to_int (char_at rx 5) * 0x1000000;
                s2 = SerialPrintf DATA ''Sensor - Status:     %d\<newline>'' [U8 status] s1;
                s3 = SerialPrintf DATA ''Sensor - Timestamp:  %d\<newline>'' [U32 timestamp] s2;
                s4 = (if length rx > 8 then
                        let unfiltered0 = to_int (char_at rx 6) + to_int (char_at rx 7) * 0x100
                                        + to_int (char_at rx 8) * 0x10000
                                        + to_int (char_at rx 9) * 0x1000000;
                            filtered0 = to_int (char_at rx 10) + to_int (char_at rx 11) * 0x100
                                      + to_int (char_at rx 12) * 0x10000
                                      + to_int (char_at rx 13) * 0x1000000;
                            g6Scale = (34 :: 32 word);
                            unfiltered = (if char_at (transmitterID s3) 0 = 8
                                          then unfiltered0 * g6Scale else unfiltered0);
                            filtered = (if char_at (transmitterID s3) 0 = 8
                                        then filtered0 * g6Scale else filtered0);
                            t1 = SerialPrintf DATA ''Sensor - Unfiltered: %d\<newline>''
                                   [U32 unfiltered] s3
                        in SerialPrintf DATA ''Sensor - Filtered:   %d\<newline>'' [U32 filtered] t1
                      else s3)
            in Inr (True, s4))"

definition readLastCalibration :: "session \<Rightarrow> bool outcome" where
  "readLastCalibration s =
     (case ControlWaitToReceiveValue (ControlSendValue [0x32, 0x11, 0x16] s) of
        Inl f \<Rightarrow> Inl f
      | Inr (rx, s1) \<Rightarrow>
          if (length rx \<noteq> 19 \<and> length rx \<noteq> 20) \<or> char_at rx 0 \<noteq> 0x33 then Inr (False, s1)
          else
            let glucose = (ucast (to_int (char_at rx 11) + to_int (char_at rx 12) * 0x100)
                             :: 16 word);
                timestamp = to_int (char_at rx 13) + to_int (char_at rx 14) * 0x100
                          + to_int (char_at rx 15) * 0x10000 + to_int (char_at rx 16) * 0x1000000;
                s2 = SerialPrintf DATA ''Calibration - Glucose:   %d\<newline>'' [U16 glucose] s1;
                s3 = SerialPrintf DATA ''Calibration - Timestamp: %d\<newline>'' [U32 timestamp] s2
            in Inr (True, s3))"

section \<open>Observing a call\<close>

text \<open>
  What a call returned (nothing when it did not return), the session it left, and the
  events it appended to the trace; \<open>printed\<close> keeps the \<open>SerialPrintf\<close> lines, which are
  the decoded record of a telemetry query, and \<open>control_sent\<close> the frames sent on the
  control channel.
\<close>

definition returned :: "'a outcome \<Rightarrow> 'a option" where
  "returned r = (case r of Inl _ \<Rightarrow> None | Inr (v, _) \<Rightarrow> Some v)"

definition final :: "'a outcome \<Rightarrow> session" where
  "final r = (case r of Inl (_, s) \<Rightarrow> s | Inr (_, s) \<Rightarrow> s)"

definition appended :: "session \<Rightarrow> 'a outcome \<Rightarrow> event list" where
  "appended s r = drop (length (trace s)) (trace (final r))"

fun is_printf :: "event \<Rightarrow> bool" where
  "is_printf (Printf l fmt args) = True"
| "is_printf e = False"

definition printed :: "session \<Rightarrow> 'a outcome \<Rightarrow> event list" where
  "printed s r = filter is_printf (appended s r)"

fun control_frames :: "event list \<Rightarrow> bytes list" where
  "control_frames [] = []"
| "control_frames (ControlSend v # es) = v # control_frames es"
| "control_frames (e # es) = control_frames es"

definition control_sent :: "session \<Rightarrow> 'a outcome \<Rightarrow> bytes list" where
  "control_sent s r = control_frames (appended s r)"

section \<open>The frame table and the fields, as the specification words them\<close>

text \<open>
  The five telemetry queries, with the valid lengths and the expected opcode of the answer
  from the table of section 6. Family B is the identity whose first byte is 8.
\<close>

datatype query = TimeQuery | BatteryQuery | GlucoseQuery | SensorQuery | CalibrationQuery

fun telemetry_query :: "query \<Rightarrow> session \<Rightarrow> bool outcome" where
  "telemetry_query TimeQuery = readTimeMessage"
| "telemetry_query BatteryQuery = readBatteryStatus"
| "telemetry_query GlucoseQuery = readGlucose"
| "telemetry_query SensorQuery = readSensor"
| "telemetry_query CalibrationQuery = readLastCalibration"

fun valid_length :: "query \<Rightarrow> nat \<Rightarrow> bool" where
  "valid_length TimeQuery n = (n = 16)"
| "valid_length BatteryQuery n = (n = 10 \<or> n = 12)"
| "valid_length GlucoseQuery n = (16 \<le> n)"
| "valid_length SensorQuery n = (n = 8 \<or> n = 16)"
| "valid_length CalibrationQuery n = (n = 19 \<or> n = 20)"

definition family_B :: "bytes \<Rightarrow> bool" where
  "family_B ident = (case ident of [] \<Rightarrow> False | c # _ \<Rightarrow> c = 8)"

fun expected_opcode :: "bytes \<Rightarrow> query \<Rightarrow> byte" where
  "expected_opcode ident TimeQuery = 0x25"
| "expected_opcode ident BatteryQuery = 0x23"
| "expected_opcode ident GlucoseQuery = (if family_B ident then 0x4f else 0x31)"
| "expected_opcode ident SensorQuery = 0x2f"
| "expected_opcode ident CalibrationQuery = 0x33"

definition table_accepts :: "bytes \<Rightarrow> query \<Rightarrow> bytes \<Rightarrow> bool" where
  "table_accepts ident q rx =
     (valid_length q (length rx)
      \<and> (case rx of [] \<Rightarrow> False | b # _ \<Rightarrow> b = expected_opcode ident q))"

text \<open>The value of a little-endian field of two or four bytes starting at byte \<open>i\<close>.\<close>

definition le16 :: "bytes \<Rightarrow> nat \<Rightarrow> nat" where
  "le16 m i = unat (m ! i) + 256 * unat (m ! (i + 1))"


section \<open>Concrete inputs\<close>

text \<open>
  A session that has not exchanged anything yet (\<open>bonding\<close> starts true, so that the
  handshake's assignment of false shows), and a concrete instance of the block encryption
  parameter for running the model on concrete inputs: the input XORed with the bound key,
  and the input unchanged on an unbound context. It is not AES; every theorem below that is
  stated for \<open>ecb\<close> holds for any instance.
\<close>

definition fresh_session :: "bytes \<Rightarrow> bytes list \<Rightarrow> bytes list \<Rightarrow> session" where
  "fresh_session ident auth control =
     \<lparr>transmitterID = ident, bonding = True, authNotify = auth, controlNotify = control,
      trace = []\<rparr>"

definition xor_ecb :: crypt_ecb where
  "xor_ecb ctx input =
     (case ctx of
        Unbound \<Rightarrow> input
      | Bound key \<Rightarrow> map (\<lambda>(a, b). a XOR b) (zip input (key @ replicate 16 0)))"

text \<open>Identities: six characters \<open>"401234"\<close>, five characters \<open>"40123"\<close>, and one of family B.\<close>

definition id_401234 :: bytes where
  "id_401234 = [0x34, 0x30, 0x31, 0x32, 0x33, 0x34]"

definition id_40123 :: bytes where
  "id_40123 = [0x34, 0x30, 0x31, 0x32, 0x33]"

definition id_family_B :: bytes where
  "id_family_B = [0x08, 0x30, 0x31, 0x32, 0x33, 0x34]"

definition challenge_1to8 :: bytes where
  "challenge_1to8 = [1, 2, 3, 4, 5, 6, 7, 8]"

text \<open>A well-formed answer to the authentication request: opcode 3, token, challenge.\<close>

definition authChallengeRx_ok :: bytes where
  "authChallengeRx_ok =
     [0x03, 0x11, 0x12, 0x13, 0x14, 0x15, 0x16, 0x17, 0x18, 1, 2, 3, 4, 5, 6, 7, 8]"

text \<open>The same answer with opcode 5 in place of 3.\<close>

definition authChallengeRx_opcode_5 :: bytes where
  "authChallengeRx_opcode_5 =
     [0x05, 0x11, 0x12, 0x13, 0x14, 0x15, 0x16, 0x17, 0x18, 1, 2, 3, 4, 5, 6, 7, 8]"

text \<open>
  Answers on the control channel: a glucose frame whose packed field at bytes 10 and 11
  is \<open>0x1234\<close>, for each family's opcode; sensor frames with raw counts 10000 and 20000,
  and with both raw counts \<open>0x08000000\<close>; battery frames of 12 and of 10 bytes; a time
  frame.
\<close>

definition glucoseRx_1234 :: bytes where
  "glucoseRx_1234 =
     [0x31, 0x00, 0x01, 0x00, 0x00, 0x00, 0x10, 0x0e, 0x00, 0x00, 0x34, 0x12, 0x06, 0x00,
      0x00, 0x00]"

definition glucoseRx_family_B :: bytes where
  "glucoseRx_family_B =
     [0x4f, 0x00, 0x01, 0x00, 0x00, 0x00, 0x10, 0x0e, 0x00, 0x00, 0x34, 0x12, 0x06, 0x00,
      0x00, 0x00]"



definition batteryRx_12 :: bytes where
  "batteryRx_12 = [0x23, 0x00, 0x2c, 0x01, 0x2b, 0x01, 0x10, 0x02, 0x05, 0x25, 0x00, 0x00]"

definition batteryRx_10 :: bytes where
  "batteryRx_10 = [0x23, 0x00, 0x2c, 0x01, 0x2b, 0x01, 0x05, 0x25, 0x00, 0x00]"

definition timeRx_ok :: bytes where
  "timeRx_ok =
     [0x25, 0x00, 0x10, 0x0e, 0x00, 0x00, 0x08, 0x07, 0x00, 0x00, 0x00, 0x00, 0x00, 0x00,
      0x00, 0x00]"

section \<open>Properties of the keyed hash\<close>

subsection \<open>The split of the challenge message\<close>

lemma split_step_low:
  assumes "1 \<le> n" "n < 9" "n < length msg"
  shows "split_step msg (take (n - 1) (drop 1 msg), []) n = (take n (drop 1 msg), [])"
proof -
  have "take (Suc (n - 1)) (drop 1 msg) = take (n - 1) (drop 1 msg) @ [drop 1 msg ! (n - 1)]"
    using assms by (intro take_Suc_conv_app_nth) simp
  moreover have "drop 1 msg ! (n - 1) = msg ! n" using assms by simp
  ultimately show ?thesis using assms by (simp add: split_step_def char_at_def)
qed

lemma split_step_high:
  assumes "9 \<le> n" "n < length msg"
  shows "split_step msg (t, take (n - 9) (drop 9 msg)) n = (t, take (Suc n - 9) (drop 9 msg))"
proof -
  have "take (Suc (n - 9)) (drop 9 msg) = take (n - 9) (drop 9 msg) @ [drop 9 msg ! (n - 9)]"
    using assms by (intro take_Suc_conv_app_nth) simp
  moreover have "drop 9 msg ! (n - 9) = msg ! n" using assms by simp
  moreover have "Suc n - 9 = Suc (n - 9)" using assms by simp
  ultimately show ?thesis using assms by (simp add: split_step_def char_at_def)
qed

lemma split_fold:
  "n \<le> length msg \<Longrightarrow> 1 \<le> n \<Longrightarrow>
   foldl (split_step msg) ([], []) [1..<n] = (take (min n 9 - 1) (drop 1 msg), take (n - 9) (drop 9 msg))"
proof (induction n)
  case 0 then show ?case by simp
next
  case (Suc n)
  show ?case
  proof (cases "n = 0")
    case True then show ?thesis by simp
  next
    case False
    with Suc have IH: "foldl (split_step msg) ([], []) [1..<n] = (take (min n 9 - 1) (drop 1 msg), take (n - 9) (drop 9 msg))"
      and n: "n < length msg" "1 \<le> n" by auto
    have upt: "[1..<Suc n] = [1..<n] @ [n]" using n by simp
    show ?thesis
    proof (cases "n < 9")
      case True
      then have "foldl (split_step msg) ([], []) [1..<n] = (take (n - 1) (drop 1 msg), [])"
        using IH by simp
      then have "foldl (split_step msg) ([], []) [1..<Suc n] = (take n (drop 1 msg), [])"
        using split_step_low [OF n(2) True n(1)] by (simp only: upt foldl_append foldl.simps)
      then show ?thesis using True by simp
    next
      case False
      then have n9: "9 \<le> n" by simp
      then have "foldl (split_step msg) ([], []) [1..<n] = (take 8 (drop 1 msg), take (n - 9) (drop 9 msg))"
        using IH by simp
      then have "foldl (split_step msg) ([], []) [1..<Suc n]
                 = (take 8 (drop 1 msg), take (Suc n - 9) (drop 9 msg))"
        using split_step_high [OF n9 n(1)] by (simp only: upt foldl_append foldl.simps)
      then show ?thesis using n9 by simp
    qed
  qed
qed

lemma split_challenge_17:
  "length msg = 17 \<Longrightarrow> split_challenge msg = (take 8 (drop 1 msg), drop 9 msg)"
  using split_fold [of 17 msg] by (simp add: split_challenge_def)

subsection \<open>Key and cipher call\<close>

lemma strlen_c_str: "0 \<notin> set k \<Longrightarrow> strlen (c_str k) = length k"
  unfolding strlen_def c_str_def by (subst takeWhile_append2) auto

lemma key_string_props:
  "length (key_string ident) = 4 + 2 * length ident"
  "0 \<notin> set ident \<Longrightarrow> 0 \<notin> set (key_string ident)"
  by (auto simp: key_string_def)

lemma encrypt_16:
  assumes "length buffer = 16" "length ident = 6" "0 \<notin> set ident"
  shows "encrypt ecb buffer ident = Inr (take 16 (ecb (Bound (key_string ident)) buffer))"
proof -
  have "strlen (c_str (key_string ident)) = 16"
    using assms by (simp add: strlen_c_str key_string_props)
  moreover have "take 16 (c_str (key_string ident)) = key_string ident"
    using assms by (simp add: c_str_def key_string_props)
  ultimately show ?thesis
    using assms by (simp add: encrypt_def Let_def mbedtls_aes_setkey_enc_def c_str_def)
qed

lemma encrypt_returns:
  "length buffer = 16 \<Longrightarrow> \<exists>h. encrypt ecb buffer ident = Inr h"
  by (simp add: encrypt_def Let_def c_str_def)

lemma calculateHash_returns:
  "length data = 8 \<Longrightarrow> \<exists>h. calculateHash ecb data ident s = Inr (h, s)"
  using encrypt_returns [of "data @ data" ecb ident]
  by (auto simp: calculateHash_def)

text \<open>
  Claim C1, as amended. For every identity of exactly six bytes, none of them NUL, and
  every 8-byte challenge \<open>c\<close>, the key string \<open>"00" + id + "00" + id\<close> has 16 bytes and
  \<open>calculateHash\<close> returns the first 8 bytes of the block encryption of \<open>c @ c\<close> on the
  context bound to that key, leaving the session as it was.
\<close>

theorem calculateHash_truncated_ecb:
  assumes "length c = 8" and "length ident = 6" and "0 \<notin> set ident"
  shows "length (key_string ident) = 16 \<and>
         calculateHash ecb c ident s = Inr (take 8 (ecb (Bound (key_string ident)) (c @ c)), s)"
  using assms encrypt_16 [of "c @ c" ident ecb]
  by (simp add: calculateHash_def key_string_props)

theorem calculateHash_truncated_ecb_witness:
  "length (key_string id_401234) = 16 \<and>
   calculateHash xor_ecb challenge_1to8 id_401234 (fresh_session id_401234 [] [])
     = Inr ([0x31, 0x32, 0x37, 0x34, 0x34, 0x34, 0x34, 0x3c], fresh_session id_401234 [] [])"
  using calculateHash_truncated_ecb
          [of challenge_1to8 id_401234 xor_ecb "fresh_session id_401234 [] []"]
  by (simp add: challenge_1to8_def id_401234_def key_string_def xor_ecb_def)

text \<open>
  Claim C1 as stated, for every identity string, fails at the five-character identity
  \<open>"40123"\<close>: the key string has 14 bytes, \<open>strlen * 8 = 112\<close> is no AES key size, the
  context stays unbound, and the result is not the encryption under the key string.
\<close>

theorem calculateHash_five_byte_identity:
  "length (key_string id_40123) = 14 \<and>
   calculateHash xor_ecb challenge_1to8 id_40123 (fresh_session id_40123 [] [])
     = Inr (take 8 (xor_ecb Unbound (challenge_1to8 @ challenge_1to8)),
            fresh_session id_40123 [] []) \<and>
   calculateHash xor_ecb challenge_1to8 id_40123 (fresh_session id_40123 [] [])
     \<noteq> Inr (take 8 (xor_ecb (Bound (key_string id_40123)) (challenge_1to8 @ challenge_1to8)),
            fresh_session id_40123 [] [])"
  by (simp add: calculateHash_def encrypt_def Let_def mbedtls_aes_setkey_enc_def
        mbedtls_aes_init_def c_str_def strlen_def key_string_def id_40123_def challenge_1to8_def
        xor_ecb_def)

text \<open>
  Claim C10. A challenge whose length is not 8 makes \<open>calculateHash\<close> print the error
  line and end without a value, for every identity: no hash is returned.
\<close>

theorem calculateHash_wrong_length:
  assumes "length c \<noteq> 8"
  shows "calculateHash ecb c ident s
           = Inl (NullString, s\<lparr>trace := trace s @ [Println ERROR ''cannot hash'']\<rparr>)
         \<and> returned (calculateHash ecb c ident s) = None"
  using assms by (simp add: calculateHash_def SerialPrintln_def emit_def returned_def)

theorem calculateHash_wrong_length_witness:
  "calculateHash xor_ecb [1, 2, 3] id_401234 (fresh_session id_401234 [] [])
     = Inl (NullString, (fresh_session id_401234 [] [])\<lparr>trace := [Println ERROR ''cannot hash'']\<rparr>)
   \<and> returned (calculateHash xor_ecb [1, 2, 3] id_401234 (fresh_session id_401234 [] [])) = None"
  using calculateHash_wrong_length [of "[1, 2, 3]" xor_ecb id_401234 "fresh_session id_401234 [] []"]
  by (simp add: fresh_session_def returned_def)

section \<open>Properties of the handshake\<close>

lemma authenticate_first_step:
  assumes "authNotify s = r1 # rest"
  shows "AuthWaitToReceiveValue (AuthSendValue authRequestTxMessage s)
         = Inr (r1, s\<lparr>authNotify := rest,
                        trace := trace s @ [AuthSend authRequestTxMessage, AuthRecv r1]\<rparr>)"
  using assms by (simp add: AuthWaitToReceiveValue_def AuthSendValue_def emit_def)

lemma authenticate_status:
  assumes "authNotify s = r1 # r2 # rest" and "length r1 = 17" and "char_at r1 0 = 0x03"
  shows "\<exists>h. authenticate ecb s
           = (let s3 = s\<lparr>authNotify := rest,
                           trace := trace s @ [AuthSend authRequestTxMessage, AuthRecv r1,
                                               AuthSend (0x04 # h), AuthRecv r2]\<rparr>
              in if length r2 = 3 \<and> char_at r2 1 = 1
                 then Inr (True, (SerialPrintln DEBUG ''Authenticated!'' s3)
                                   \<lparr>bonding := (char_at r2 2 \<noteq> 0x01)\<rparr>)
                 else Inr (False, SerialPrintln ERROR ''Authenticated FAILED!'' s3))"
proof -
  let ?s1 = "s\<lparr>authNotify := r2 # rest,
                 trace := trace s @ [AuthSend authRequestTxMessage, AuthRecv r1]\<rparr>"
  have first: "AuthWaitToReceiveValue (AuthSendValue authRequestTxMessage s) = Inr (r1, ?s1)"
    using authenticate_first_step [OF assms(1)] .
  have "length (snd (split_challenge r1)) = 8"
    using assms(2) by (simp add: split_challenge_17)
  then obtain h where h: "calculateHash ecb (snd (split_challenge r1)) (transmitterID ?s1) ?s1
                          = Inr (h, ?s1)"
    using calculateHash_returns by blast
  have second: "AuthWaitToReceiveValue (AuthSendValue (0x04 # h) ?s1)
                = Inr (r2, s\<lparr>authNotify := rest,
                               trace := trace s @ [AuthSend authRequestTxMessage, AuthRecv r1,
                                                   AuthSend (0x04 # h), AuthRecv r2]\<rparr>)"
    by (simp add: AuthWaitToReceiveValue_def AuthSendValue_def emit_def)
  have "authenticate ecb s
           = (let s3 = s\<lparr>authNotify := rest,
                           trace := trace s @ [AuthSend authRequestTxMessage, AuthRecv r1,
                                               AuthSend (0x04 # h), AuthRecv r2]\<rparr>
              in if length r2 = 3 \<and> char_at r2 1 = 1
                 then Inr (True, (SerialPrintln DEBUG ''Authenticated!'' s3)
                                   \<lparr>bonding := (char_at r2 2 \<noteq> 0x01)\<rparr>)
                 else Inr (False, SerialPrintln ERROR ''Authenticated FAILED!'' s3))"
    unfolding authenticate_def first
    using assms(2,3) h second by (simp add: Let_def)
  then show ?thesis by blast
qed

text \<open>
  Claim C2. When the first answer on the authentication channel has 17 bytes and opcode
  \<open>0x03\<close> and the second answer is \<open>{0x05, 0x01, 0x01}\<close>, \<open>authenticate\<close> returns true and
  leaves \<open>bonding\<close> false.
\<close>

theorem authenticate_success_no_bonding:
  assumes "authNotify s = r1 # [0x05, 0x01, 0x01] # rest"
      and "length r1 = 17" and "r1 ! 0 = 0x03"
  shows "returned (authenticate ecb s) = Some True
         \<and> bonding (final (authenticate ecb s)) = False"
proof -
  have "char_at r1 0 = 0x03" using assms(2,3) by (simp add: char_at_def)
  from authenticate_status [OF assms(1,2) this, of ecb]
  obtain h where "authenticate ecb s
      = Inr (True, (SerialPrintln DEBUG ''Authenticated!''
                      (s\<lparr>authNotify := rest,
                          trace := trace s @ [AuthSend authRequestTxMessage, AuthRecv r1,
                                              AuthSend (0x04 # h), AuthRecv [0x05, 0x01, 0x01]]\<rparr>))
                   \<lparr>bonding := False\<rparr>)"
    by (auto simp: Let_def char_at_def)
  then show ?thesis by (simp add: returned_def final_def)
qed

theorem authenticate_success_no_bonding_witness:
  "returned (authenticate xor_ecb
      (fresh_session id_401234 [authChallengeRx_ok, [0x05, 0x01, 0x01]] [])) = Some True
   \<and> bonding (final (authenticate xor_ecb
      (fresh_session id_401234 [authChallengeRx_ok, [0x05, 0x01, 0x01]] []))) = False"
  using authenticate_success_no_bonding
          [where s = "fresh_session id_401234 [authChallengeRx_ok, [0x05, 0x01, 0x01]] []"
             and ?r1.0 = authChallengeRx_ok and rest = "[]" and ecb = xor_ecb]
  by (simp add: fresh_session_def authChallengeRx_ok_def)

text \<open>
  Claim C3 does not hold of the code: the check of the status answer compares the length
  and byte 1 only. Whatever the first byte of a 3-byte answer with byte 1 equal to 1 is,
  \<open>authenticate\<close> returns true; the instance below has first byte \<open>0x07\<close>.
\<close>

theorem authenticate_ignores_status_opcode:
  assumes "authNotify s = r1 # [opcode, 0x01, flag] # rest"
      and "length r1 = 17" and "r1 ! 0 = 0x03" and "opcode \<noteq> 0x05"
  shows "returned (authenticate ecb s) = Some True"
proof -
  have "char_at r1 0 = 0x03" using assms(2,3) by (simp add: char_at_def)
  from authenticate_status [OF assms(1,2) this, of ecb]
  show ?thesis by (auto simp: Let_def char_at_def returned_def)
qed

theorem authenticate_ignores_status_opcode_witness:
  "returned (authenticate xor_ecb
      (fresh_session id_401234 [authChallengeRx_ok, [0x07, 0x01, 0x01]] [])) = Some True"
  using authenticate_ignores_status_opcode
          [where s = "fresh_session id_401234 [authChallengeRx_ok, [0x07, 0x01, 0x01]] []"
             and ?r1.0 = authChallengeRx_ok and opcode = "0x07" and flag = "0x01" and rest = "[]"
             and ecb = xor_ecb]
  by (simp add: fresh_session_def authChallengeRx_ok_def)

text \<open>
  Claim C9. When the first answer has another length than 17 or another first byte than
  \<open>0x03\<close>, \<open>authenticate\<close> returns false, and all it does after receiving that answer is
  print the error line: the trace ends with the request, the answer and the line, with
  nothing sent after the answer on either channel.
\<close>

theorem authenticate_malformed_challenge:
  assumes "authNotify s = r1 # rest"
      and "length r1 \<noteq> 17 \<or> char_at r1 0 \<noteq> 0x03"
  shows "authenticate ecb s
         = Inr (False, s\<lparr>authNotify := rest,
                           trace := trace s @ [AuthSend authRequestTxMessage, AuthRecv r1,
                                               Println ERROR ''Error wrong length or opcode!'']\<rparr>)"
  using assms(2)
  by (auto simp: authenticate_def authenticate_first_step [OF assms(1)] SerialPrintln_def emit_def)

theorem authenticate_malformed_challenge_witness:
  "authenticate xor_ecb (fresh_session id_401234 [[0x05, 0x01, 0x01], authChallengeRx_ok] [])
   = Inr (False, (fresh_session id_401234 [[0x05, 0x01, 0x01], authChallengeRx_ok] [])
                   \<lparr>authNotify := [authChallengeRx_ok],
                    trace := [AuthSend authRequestTxMessage, AuthRecv [0x05, 0x01, 0x01],
                              Println ERROR ''Error wrong length or opcode!'']\<rparr>)
   \<and> authenticate xor_ecb (fresh_session id_401234 [authChallengeRx_opcode_5] [])
   = Inr (False, (fresh_session id_401234 [authChallengeRx_opcode_5] [])
                   \<lparr>authNotify := [],
                    trace := [AuthSend authRequestTxMessage, AuthRecv authChallengeRx_opcode_5,
                              Println ERROR ''Error wrong length or opcode!'']\<rparr>)"
  using authenticate_malformed_challenge
          [where s = "fresh_session id_401234 [[0x05, 0x01, 0x01], authChallengeRx_ok] []"
             and ?r1.0 = "[0x05, 0x01, 0x01]" and rest = "[authChallengeRx_ok]" and ecb = xor_ecb]
        authenticate_malformed_challenge
          [where s = "fresh_session id_401234 [authChallengeRx_opcode_5] []"
             and ?r1.0 = authChallengeRx_opcode_5 and rest = "[]" and ecb = xor_ecb]
  by (simp add: fresh_session_def authChallengeRx_opcode_5_def char_at_def)

section \<open>Properties of the telemetry queries\<close>

subsection \<open>Validation of the answer\<close>

lemma control_exchange:
  assumes "controlNotify s = rx # rest"
  shows "ControlWaitToReceiveValue (ControlSendValue cmd s)
         = Inr (rx, s\<lparr>controlNotify := rest,
                        trace := trace s @ [ControlSend cmd, ControlRecv rx]\<rparr>)"
  using assms by (simp add: ControlWaitToReceiveValue_def ControlSendValue_def emit_def)

lemma battery_exchange:
  assumes "controlNotify s = rx # rest"
  shows "ControlWaitToReceiveValue (ControlSendValue cmd (SerialPrintln DEBUG txt s))
         = Inr (rx, s\<lparr>controlNotify := rest,
                        trace := trace s @ [Println DEBUG txt, ControlSend cmd, ControlRecv rx]\<rparr>)"
  using assms
  by (simp add: ControlWaitToReceiveValue_def ControlSendValue_def SerialPrintln_def emit_def)

lemma family_B_char_at: "family_B ident \<longleftrightarrow> char_at ident 0 = 8"
  by (cases ident) (simp_all add: family_B_def char_at_def)

lemma table_accepts_char_at:
  "table_accepts ident q rx \<longleftrightarrow> valid_length q (length rx) \<and> char_at rx 0 = expected_opcode ident q"
  by (cases rx; cases q) (simp_all add: table_accepts_def char_at_def)

lemmas observe_defs =
  Let_def SerialPrintf_def emit_def returned_def printed_def appended_def final_def
  control_sent_def

lemma time_validation:
  assumes "controlNotify s = rx # rest"
  shows "returned (readTimeMessage s) = Some (table_accepts (transmitterID s) TimeQuery rx)
         \<and> (printed s (readTimeMessage s) = [] \<longleftrightarrow> \<not> table_accepts (transmitterID s) TimeQuery rx)"
  by (simp add: readTimeMessage_def control_exchange [OF assms] table_accepts_char_at observe_defs)

lemma battery_validation:
  assumes "controlNotify s = rx # rest"
  shows "returned (readBatteryStatus s) = Some (table_accepts (transmitterID s) BatteryQuery rx)
         \<and> (printed s (readBatteryStatus s) = [] \<longleftrightarrow> \<not> table_accepts (transmitterID s) BatteryQuery rx)"
  by (auto simp: readBatteryStatus_def battery_exchange [OF assms] table_accepts_char_at observe_defs)

lemma glucose_validation:
  assumes "controlNotify s = rx # rest"
  shows "returned (readGlucose s) = Some (table_accepts (transmitterID s) GlucoseQuery rx)
         \<and> (printed s (readGlucose s) = [] \<longleftrightarrow> \<not> table_accepts (transmitterID s) GlucoseQuery rx)"
  by (auto simp: readGlucose_def control_exchange [OF assms] table_accepts_char_at family_B_char_at
        observe_defs)

lemma sensor_validation:
  assumes "controlNotify s = rx # rest"
  shows "returned (readSensor s) = Some (table_accepts (transmitterID s) SensorQuery rx)
         \<and> (printed s (readSensor s) = [] \<longleftrightarrow> \<not> table_accepts (transmitterID s) SensorQuery rx)"
  by (auto simp: readSensor_def control_exchange [OF assms] table_accepts_char_at observe_defs)

lemma calibration_validation:
  assumes "controlNotify s = rx # rest"
  shows "returned (readLastCalibration s) = Some (table_accepts (transmitterID s) CalibrationQuery rx)
         \<and> (printed s (readLastCalibration s) = [] \<longleftrightarrow> \<not> table_accepts (transmitterID s) CalibrationQuery rx)"
  by (auto simp: readLastCalibration_def control_exchange [OF assms] table_accepts_char_at observe_defs)

text \<open>
  Claim C4. For each of the five telemetry queries, the answer is accepted exactly when
  its length is one of the valid lengths of the table and its first byte is the expected
  opcode; the query returns that verdict, and it prints decoded fields when it accepts and
  none at all when it rejects.
\<close>

theorem telemetry_query_validation:
  assumes "controlNotify s = rx # rest"
  shows "returned (telemetry_query q s) = Some (table_accepts (transmitterID s) q rx)
         \<and> (printed s (telemetry_query q s) = [] \<longleftrightarrow> \<not> table_accepts (transmitterID s) q rx)"
proof (cases q)
  case TimeQuery
  then show ?thesis using time_validation [OF assms] by simp
next
  case BatteryQuery
  then show ?thesis using battery_validation [OF assms] by simp
next
  case GlucoseQuery
  then show ?thesis using glucose_validation [OF assms] by simp
next
  case SensorQuery
  then show ?thesis using sensor_validation [OF assms] by simp
next
  case CalibrationQuery
  then show ?thesis using calibration_validation [OF assms] by simp
qed

theorem telemetry_query_validation_witness:
  "returned (telemetry_query TimeQuery (fresh_session id_401234 [] [timeRx_ok])) = Some True
   \<and> printed (fresh_session id_401234 [] [timeRx_ok])
         (telemetry_query TimeQuery (fresh_session id_401234 [] [timeRx_ok])) \<noteq> []
   \<and> returned (telemetry_query SensorQuery (fresh_session id_401234 [] [timeRx_ok])) = Some False
   \<and> printed (fresh_session id_401234 [] [timeRx_ok])
         (telemetry_query SensorQuery (fresh_session id_401234 [] [timeRx_ok])) = []"
  using telemetry_query_validation
          [where s = "fresh_session id_401234 [] [timeRx_ok]" and rx = timeRx_ok and rest = "[]"
             and q = TimeQuery]
        telemetry_query_validation
          [where s = "fresh_session id_401234 [] [timeRx_ok]" and rx = timeRx_ok and rest = "[]"
             and q = SensorQuery]
  by (simp add: fresh_session_def timeRx_ok_def table_accepts_def)

subsection \<open>Little-endian fields in machine arithmetic\<close>



lemma of_nat_u16_32: "to_int a + to_int b * 0x100 = of_nat (unat a + 256 * unat b)"
  by (simp add: to_int_def)

lemma ucast_of_nat_16: "(ucast (of_nat n :: 32 word) :: 16 word) = of_nat n"
  by (simp add: word_unat_eq_iff unat_of_nat unsigned_ucast_eq unsigned_of_nat take_bit_eq_mod
        mod_mod_cancel)







lemma u16_field:
  "(ucast (to_int a + to_int b * 0x100) :: 16 word) = of_nat (unat a + 256 * unat b)"
  by (simp only: of_nat_u16_32 ucast_of_nat_16)


subsection \<open>Glucose\<close>







text \<open>
  Claim C6. With an identity whose first byte is not 8, \<open>readGlucose\<close> sends the frame
  with opcode \<open>0x30\<close> and accepts an answer only if its first byte is \<open>0x31\<close>; with an
  identity whose first byte is 8, it sends opcode \<open>0x4e\<close> and accepts only \<open>0x4f\<close>.
\<close>

theorem readGlucose_family_dispatch:
  assumes "controlNotify s = rx # rest"
  shows "(\<not> family_B (transmitterID s) \<longrightarrow>
            control_sent s (readGlucose s) = [[0x30, 0x53, 0x36]]
            \<and> returned (readGlucose s) = Some (16 \<le> length rx \<and> rx ! 0 = 0x31))
       \<and> (family_B (transmitterID s) \<longrightarrow>
            control_sent s (readGlucose s) = [[0x4e, 0x0a, 0xa9]]
            \<and> returned (readGlucose s) = Some (16 \<le> length rx \<and> rx ! 0 = 0x4f))"
  by (auto simp: readGlucose_def control_exchange [OF assms] observe_defs char_at_def
        family_B_char_at glucoseTxMessageG5_def glucoseTxMessageG6_def)

theorem readGlucose_family_dispatch_witness:
  "control_sent (fresh_session id_401234 [] [glucoseRx_1234])
     (readGlucose (fresh_session id_401234 [] [glucoseRx_1234])) = [[0x30, 0x53, 0x36]]
   \<and> returned (readGlucose (fresh_session id_401234 [] [glucoseRx_1234])) = Some True
   \<and> control_sent (fresh_session id_family_B [] [glucoseRx_1234])
     (readGlucose (fresh_session id_family_B [] [glucoseRx_1234])) = [[0x4e, 0x0a, 0xa9]]
   \<and> returned (readGlucose (fresh_session id_family_B [] [glucoseRx_1234])) = Some False
   \<and> returned (readGlucose (fresh_session id_family_B [] [glucoseRx_family_B])) = Some True"
  using readGlucose_family_dispatch
          [where s = "fresh_session id_401234 [] [glucoseRx_1234]" and rx = glucoseRx_1234
             and rest = "[]"]
        readGlucose_family_dispatch
          [where s = "fresh_session id_family_B [] [glucoseRx_1234]" and rx = glucoseRx_1234
             and rest = "[]"]
        readGlucose_family_dispatch
          [where s = "fresh_session id_family_B [] [glucoseRx_family_B]"
             and rx = glucoseRx_family_B and rest = "[]"]
  by (simp add: fresh_session_def family_B_def id_401234_def id_family_B_def glucoseRx_1234_def
        glucoseRx_family_B_def)

subsection \<open>Sensor\<close>








subsection \<open>Battery\<close>

lemma battery_accepted_length:
  assumes "controlNotify s = rx # rest" and "returned (readBatteryStatus s) = Some True"
  shows "length rx = 12 \<or> length rx = 10"
  using assms(2)
  by (auto simp: readBatteryStatus_def battery_exchange [OF assms(1)] observe_defs
           split: if_splits)

lemma u16_at:
  "i + 1 < length m \<Longrightarrow>
   (ucast (to_int (char_at m i) + to_int (char_at m (i + 1)) * 0x100) :: 16 word)
   = of_nat (le16 m i)"
  by (simp add: char_at_def u16_field le16_def)

lemma battery_printed_12:
  assumes "controlNotify s = rx # rest" and "returned (readBatteryStatus s) = Some True"
      and "length rx = 12"
  shows "printed s (readBatteryStatus s) =
     [Printf DATA ''Battery - Status:      %d\<newline>'' [U8 (rx ! 1)],
      Printf DATA ''Battery - Voltage A:   %d\<newline>'' [U16 (of_nat (le16 rx 2))],
      Printf DATA ''Battery - Voltage B:   %d\<newline>'' [U16 (of_nat (le16 rx 4))],
      Printf DATA ''Battery - Resistance:  %d\<newline>'' [U16 (of_nat (le16 rx 6))],
      Printf DATA ''Battery - Runtime:     %d\<newline>'' [U8 (rx ! 8)],
      Printf DATA ''Battery - Temperature: %d\<newline>'' [U8 (rx ! 9)]]"
proof -
  have f: "(ucast (to_int (char_at rx 2) + to_int (char_at rx 3) * 0x100) :: 16 word)
             = of_nat (le16 rx 2)"
          "(ucast (to_int (char_at rx 4) + to_int (char_at rx 5) * 0x100) :: 16 word)
             = of_nat (le16 rx 4)"
          "(ucast (to_int (char_at rx 6) + to_int (char_at rx 7) * 0x100) :: 16 word)
             = of_nat (le16 rx 6)"
    using u16_at [of 2 rx] u16_at [of 4 rx] u16_at [of 6 rx] assms(3) by simp_all
  have c: "char_at rx (Suc 0) = rx ! 1" "char_at rx 8 = rx ! 8" "char_at rx 9 = rx ! 9"
    using assms(3) by (simp_all add: char_at_def)
  show ?thesis
    using assms(2,3)
    by (simp add: readBatteryStatus_def battery_exchange [OF assms(1)] observe_defs f c
          split: if_splits)
qed

lemma battery_printed_10:
  assumes "controlNotify s = rx # rest" and "returned (readBatteryStatus s) = Some True"
      and "length rx = 10"
  shows "printed s (readBatteryStatus s) =
     [Printf DATA ''Battery - Status:      %d\<newline>'' [U8 (rx ! 1)],
      Printf DATA ''Battery - Voltage A:   %d\<newline>'' [U16 (of_nat (le16 rx 2))],
      Printf DATA ''Battery - Voltage B:   %d\<newline>'' [U16 (of_nat (le16 rx 4))],
      Printf DATA ''Battery - Runtime:     %d\<newline>'' [U8 (rx ! 6)],
      Printf DATA ''Battery - Temperature: %d\<newline>'' [U8 (rx ! 7)]]"
proof -
  have f: "(ucast (to_int (char_at rx 2) + to_int (char_at rx 3) * 0x100) :: 16 word)
             = of_nat (le16 rx 2)"
          "(ucast (to_int (char_at rx 4) + to_int (char_at rx 5) * 0x100) :: 16 word)
             = of_nat (le16 rx 4)"
    using u16_at [of 2 rx] u16_at [of 4 rx] assms(3) by simp_all
  have c: "char_at rx (Suc 0) = rx ! 1" "char_at rx 6 = rx ! 6" "char_at rx 7 = rx ! 7"
    using assms(3) by (simp_all add: char_at_def)
  show ?thesis
    using assms(2,3)
    by (simp add: readBatteryStatus_def battery_exchange [OF assms(1)] observe_defs f c
          split: if_splits)
qed

text \<open>
  Claim C8. An accepted battery frame has 12 or 10 bytes. With 12 bytes the decoded record
  is exactly six lines: status, the two voltages, the resistance (little-endian 16-bit
  field at bytes 6 and 7), the runtime (byte 8) and the temperature (byte 9). With 10
  bytes it is exactly five lines: status, the two voltages, the runtime (byte 6) and the
  temperature (byte 7); no resistance line is printed. Nothing but the length selects the
  variant.
\<close>

theorem readBatteryStatus_variants:
  assumes "controlNotify s = rx # rest" and "returned (readBatteryStatus s) = Some True"
  shows "(length rx = 12 \<or> length rx = 10)
       \<and> (length rx = 12 \<longrightarrow>
            printed s (readBatteryStatus s) =
              [Printf DATA ''Battery - Status:      %d\<newline>'' [U8 (rx ! 1)],
               Printf DATA ''Battery - Voltage A:   %d\<newline>'' [U16 (of_nat (le16 rx 2))],
               Printf DATA ''Battery - Voltage B:   %d\<newline>'' [U16 (of_nat (le16 rx 4))],
               Printf DATA ''Battery - Resistance:  %d\<newline>'' [U16 (of_nat (le16 rx 6))],
               Printf DATA ''Battery - Runtime:     %d\<newline>'' [U8 (rx ! 8)],
               Printf DATA ''Battery - Temperature: %d\<newline>'' [U8 (rx ! 9)]])
       \<and> (length rx = 10 \<longrightarrow>
            printed s (readBatteryStatus s) =
              [Printf DATA ''Battery - Status:      %d\<newline>'' [U8 (rx ! 1)],
               Printf DATA ''Battery - Voltage A:   %d\<newline>'' [U16 (of_nat (le16 rx 2))],
               Printf DATA ''Battery - Voltage B:   %d\<newline>'' [U16 (of_nat (le16 rx 4))],
               Printf DATA ''Battery - Runtime:     %d\<newline>'' [U8 (rx ! 6)],
               Printf DATA ''Battery - Temperature: %d\<newline>'' [U8 (rx ! 7)]])"
  using battery_accepted_length [OF assms] battery_printed_12 [OF assms]
        battery_printed_10 [OF assms]
  by blast

theorem readBatteryStatus_variants_witness:
  "printed (fresh_session id_401234 [] [batteryRx_12])
     (readBatteryStatus (fresh_session id_401234 [] [batteryRx_12]))
   = [Printf DATA ''Battery - Status:      %d\<newline>'' [U8 0],
      Printf DATA ''Battery - Voltage A:   %d\<newline>'' [U16 300],
      Printf DATA ''Battery - Voltage B:   %d\<newline>'' [U16 299],
      Printf DATA ''Battery - Resistance:  %d\<newline>'' [U16 528],
      Printf DATA ''Battery - Runtime:     %d\<newline>'' [U8 5],
      Printf DATA ''Battery - Temperature: %d\<newline>'' [U8 37]]
   \<and> printed (fresh_session id_401234 [] [batteryRx_10])
     (readBatteryStatus (fresh_session id_401234 [] [batteryRx_10]))
   = [Printf DATA ''Battery - Status:      %d\<newline>'' [U8 0],
      Printf DATA ''Battery - Voltage A:   %d\<newline>'' [U16 300],
      Printf DATA ''Battery - Voltage B:   %d\<newline>'' [U16 299],
      Printf DATA ''Battery - Runtime:     %d\<newline>'' [U8 5],
      Printf DATA ''Battery - Temperature: %d\<newline>'' [U8 37]]"
proof -
  let ?l = "fresh_session id_401234 [] [batteryRx_12]"
  let ?t = "fresh_session id_401234 [] [batteryRx_10]"
  have notify: "controlNotify ?l = batteryRx_12 # []" "controlNotify ?t = batteryRx_10 # []"
    by (simp_all add: fresh_session_def)
  have accepted: "returned (readBatteryStatus ?l) = Some True"
                 "returned (readBatteryStatus ?t) = Some True"
    using battery_validation [OF notify(1)] battery_validation [OF notify(2)]
    by (simp_all add: table_accepts_def batteryRx_12_def batteryRx_10_def)
  have vals: "length batteryRx_12 = 12" "length batteryRx_10 = 10"
             "batteryRx_12 ! Suc 0 = 0" "le16 batteryRx_12 2 = 300" "le16 batteryRx_12 4 = 299"
             "le16 batteryRx_12 6 = 528" "batteryRx_12 ! 8 = 5" "batteryRx_12 ! 9 = 37"
             "batteryRx_10 ! Suc 0 = 0" "le16 batteryRx_10 2 = 300" "le16 batteryRx_10 4 = 299"
             "batteryRx_10 ! 6 = 5" "batteryRx_10 ! 7 = 37"
    by (simp_all add: le16_def batteryRx_12_def batteryRx_10_def)
  show ?thesis
    using readBatteryStatus_variants [OF notify(1) accepted(1)]
          readBatteryStatus_variants [OF notify(2) accepted(2)]
    by (simp add: vals)
qed

end
